theory Spec2Isabelle
  imports Complex_Main
begin

section \<open>Enforcer rules of the cascades planner\<close>

text \<open>
  The development embeds \<^verbatim>\<open>pkg/planner/cascades/old/enforcer_rules.go\<close>:
  \<^verbatim>\<open>GetEnforcerRules\<close> and the three methods of \<^verbatim>\<open>OrderEnforcer\<close>.
  The packages \<^verbatim>\<open>memo\<close>, \<^verbatim>\<open>property\<close>, \<^verbatim>\<open>pattern\<close>,
  \<^verbatim>\<open>physicalop\<close>, \<^verbatim>\<open>implementation\<close> and \<^verbatim>\<open>util\<close> that the file
  imports are not part of the sources at hand. Their types are declared below with exactly
  the fields and methods that the file reads or writes.

  A \<^verbatim>\<open>float64\<close> is represented by a real number. The embedded functions perform no
  floating-point arithmetic: they store the constant \<^verbatim>\<open>math.MaxFloat64\<close> and pass
  the row count on to the cost function of the sort operator.
\<close>

subsection \<open>Data model\<close>

type_synonym float64 = real

text \<open>\<^verbatim>\<open>math.MaxFloat64\<close> of the Go standard library:
  \<^verbatim>\<open>0x1p1023 * (1 + (1 - 0x1p-52))\<close>, the largest finite \<^verbatim>\<open>float64\<close>.\<close>

definition MaxFloat64 :: float64 where
  "MaxFloat64 = 2 ^ 1024 - 2 ^ 971"

text \<open>Modelled from the spec: \<^verbatim>\<open>pattern.EngineType\<close> is missing from the sources.
  The spec speaks of an engine-affinity tag and of the one tag for which enforcement is
  legal; the code names that tag \<^verbatim>\<open>EngineTiDB\<close>. Every other tag is
  \<open>EngineOther n\<close>.\<close>

datatype EngineType = EngineTiDB | EngineOther nat

text \<open>Modelled from the spec: \<^verbatim>\<open>property.SortItem\<close> and
  \<^verbatim>\<open>property.PhysicalProperty\<close> are missing from the sources. The spec gives a
  physical property as an ordered sequence of (column, descending) items and an expected
  row count; the code reads \<^verbatim>\<open>SortItems\<close>, \<^verbatim>\<open>Col\<close>, \<^verbatim>\<open>Desc\<close> and
  writes \<^verbatim>\<open>ExpectedCnt\<close>. The type of columns is a parameter.\<close>

record 'col SortItem =
  Col :: 'col
  Desc :: bool

record 'col PhysicalProperty =
  SortItems :: "'col SortItem list"
  ExpectedCnt :: float64

text \<open>Modelled from the spec: the method \<^verbatim>\<open>PhysicalProperty.IsSortItemEmpty\<close> is
  missing from the sources. The spec has an is-empty predicate on the sort-item list.\<close>

definition IsSortItemEmpty :: "'col PhysicalProperty \<Rightarrow> bool" where
  "IsSortItemEmpty p = (SortItems p = [])"

text \<open>\<^verbatim>\<open>util.ByItems\<close>: a sort key of the sort operator. The field \<^verbatim>\<open>Expr\<close>
  holds an expression; the only expressions that the file stores there are columns.\<close>

record 'col ByItems =
  Expr :: 'col
  Desc :: bool

text \<open>Modelled from the spec: \<^verbatim>\<open>property.StatsInfo\<close> is missing from the
  sources. The spec gives a group an estimated row count; the code reads
  \<^verbatim>\<open>RowCount\<close>.\<close>

record StatsInfo =
  RowCount :: float64

text \<open>Modelled from the spec: \<^verbatim>\<open>physicalop.PhysicalSort\<close>, its method
  \<^verbatim>\<open>Init\<close> and the interface of physical plans are missing from the sources.
  A physical plan answers \<^verbatim>\<open>SCtx()\<close>, \<^verbatim>\<open>StatsInfo()\<close> and
  \<^verbatim>\<open>QueryBlockOffset()\<close> (below \<open>plan_SCtx\<close>,
  \<open>plan_StatsInfo\<close>, \<open>plan_QueryBlockOffset\<close>). A sort operator holds its sort keys
  \<^verbatim>\<open>ByItems\<close> and the four arguments of \<^verbatim>\<open>Init\<close>: the session context, the statistics, the
  query block offset and a pointer to a physical property, which is \<^verbatim>\<open>nil\<close> at one
  of the two call sites. \<open>PhysicalOther\<close> stands for every other operator, with the three
  values that the file reads from a child plan.\<close>

datatype ('col, 'ctx) PhysicalPlan =
  PhysicalSort "'col ByItems list" 'ctx StatsInfo int "'col PhysicalProperty option"
| PhysicalOther 'ctx StatsInfo int

fun plan_SCtx :: "('col, 'ctx) PhysicalPlan \<Rightarrow> 'ctx" where
  "plan_SCtx (PhysicalSort items sctx stats offset prop) = sctx"
| "plan_SCtx (PhysicalOther sctx stats offset) = sctx"

fun plan_StatsInfo :: "('col, 'ctx) PhysicalPlan \<Rightarrow> StatsInfo" where
  "plan_StatsInfo (PhysicalSort items sctx stats offset prop) = stats"
| "plan_StatsInfo (PhysicalOther sctx stats offset) = stats"

fun plan_QueryBlockOffset :: "('col, 'ctx) PhysicalPlan \<Rightarrow> int" where
  "plan_QueryBlockOffset (PhysicalSort items sctx stats offset prop) = offset"
| "plan_QueryBlockOffset (PhysicalOther sctx stats offset) = offset"

text \<open>The sort keys of a plan, absent (\<open>None\<close>) on an operator that is not a sort.\<close>

fun SortByItems :: "('col, 'ctx) PhysicalPlan \<Rightarrow> 'col ByItems list option" where
  "SortByItems (PhysicalSort items sctx stats offset prop) = Some items"
| "SortByItems (PhysicalOther sctx stats offset) = None"

text \<open>\<^verbatim>\<open>PhysicalSort{ByItems: items}.Init(sctx, stats, offset, prop)\<close>.\<close>

definition PhysicalSort_Init ::
  "'col ByItems list \<Rightarrow> 'ctx \<Rightarrow> StatsInfo \<Rightarrow> int \<Rightarrow> 'col PhysicalProperty option
   \<Rightarrow> ('col, 'ctx) PhysicalPlan" where
  "PhysicalSort_Init items sctx stats offset prop = PhysicalSort items sctx stats offset prop"

text \<open>The assignment \<^verbatim>\<open>sort.ByItems = items\<close> on a sort operator.\<close>

fun set_ByItems :: "('col, 'ctx) PhysicalPlan \<Rightarrow> 'col ByItems list \<Rightarrow> ('col, 'ctx) PhysicalPlan" where
  "set_ByItems (PhysicalSort old sctx stats offset prop) items =
     PhysicalSort items sctx stats offset prop"
| "set_ByItems (PhysicalOther sctx stats offset) items = PhysicalOther sctx stats offset"

text \<open>Modelled from the spec: \<^verbatim>\<open>memo.Implementation\<close>,
  \<^verbatim>\<open>implementation.NewSortImpl\<close> and \<^verbatim>\<open>AttachChildren\<close> are missing from the
  sources. The spec gives an implementation as a physical operator together with the
  implementations of its realized children. \<^verbatim>\<open>NewSortImpl\<close> wraps an operator,
  \<^verbatim>\<open>AttachChildren\<close> records the children.\<close>

datatype ('col, 'ctx) Implementation =
  Implementation (GetPlan: "('col, 'ctx) PhysicalPlan") (Children: "('col, 'ctx) Implementation list")

definition NewSortImpl :: "('col, 'ctx) PhysicalPlan \<Rightarrow> ('col, 'ctx) Implementation" where
  "NewSortImpl p = Implementation p []"

definition AttachChildren ::
  "('col, 'ctx) Implementation \<Rightarrow> ('col, 'ctx) Implementation list \<Rightarrow> ('col, 'ctx) Implementation" where
  "AttachChildren impl children = Implementation (GetPlan impl) children"

text \<open>Modelled from the spec: \<^verbatim>\<open>memo.GroupExpr\<close>, \<^verbatim>\<open>memo.Group\<close> and
  \<^verbatim>\<open>property.LogicalProperty\<close> are missing from the sources. The spec gives a group
  an ordered collection of group expressions, derived statistics (row count, schema) and an
  engine-affinity tag. The code reads \<^verbatim>\<open>g.EngineType\<close>,
  \<^verbatim>\<open>g.Equivalents\<close>, \<^verbatim>\<open>g.Prop.Stats\<close>, \<^verbatim>\<open>g.Prop.Schema\<close> and, of a group
  expression, the session context of its \<^verbatim>\<open>ExprNode\<close>. The pointers
  \<^verbatim>\<open>g.Prop\<close>, \<^verbatim>\<open>g.Prop.Stats\<close> and the plan \<^verbatim>\<open>ExprNode\<close> are taken
  to be set; every element of \<^verbatim>\<open>Equivalents\<close> is a group expression.\<close>

record 'ctx LogicalPlan =
  LogicalPlan_SCtx :: 'ctx

record 'ctx GroupExpr =
  ExprNode :: "'ctx LogicalPlan"

record 'col LogicalProperty =
  Stats :: StatsInfo
  Schema :: "'col list"

record ('col, 'ctx) Group =
  EngineType :: EngineType
  Equivalents :: "'ctx GroupExpr list"
  Prop :: "'col LogicalProperty"

text \<open>\<^verbatim>\<open>Front()\<close> of \<^verbatim>\<open>container/list\<close>: the first element, or
  \<^verbatim>\<open>nil\<close> when the list is empty.\<close>

definition Front :: "'a list \<Rightarrow> 'a option" where
  "Front l = (case l of [] \<Rightarrow> None | x # xs \<Rightarrow> Some x)"

text \<open>A run-time panic of the Go program.\<close>

datatype error = NilPointerDereference

subsection \<open>The enforcer rules\<close>

text \<open>An \<^verbatim>\<open>Enforcer\<close> is an interface value. The file has one implementation,
  \<^verbatim>\<open>*OrderEnforcer\<close>, a pointer to an empty struct: the value carries the address
  it points to. The package variable \<^verbatim>\<open>orderEnforcer\<close> holds the one allocation
  \<^verbatim>\<open>&OrderEnforcer{}\<close> that the file makes, here at address 0.\<close>

datatype Enforcer = OrderEnforcer nat

definition orderEnforcer :: Enforcer where
  "orderEnforcer = OrderEnforcer 0"

definition GetEnforcerRules :: "('col, 'ctx) Group \<Rightarrow> 'col PhysicalProperty \<Rightarrow> Enforcer list" where
  "GetEnforcerRules g prop =
     (let enforcers = [] in
      if EngineType g \<noteq> EngineTiDB then enforcers
      else
        let enforcers = (if \<not> IsSortItemEmpty prop then enforcers @ [orderEnforcer] else enforcers)
        in enforcers)"

fun NewProperty :: "Enforcer \<Rightarrow> 'col PhysicalProperty \<Rightarrow> 'col PhysicalProperty" where
  "NewProperty (OrderEnforcer a) p = \<lparr>SortItems = [], ExpectedCnt = MaxFloat64\<rparr>"

text \<open>The loop of \<^verbatim>\<open>OnEnforce\<close>: each sort item of the required property is
  appended to the sort keys collected so far.\<close>

fun appendByItems :: "'col ByItems list \<Rightarrow> 'col SortItem list \<Rightarrow> 'col ByItems list" where
  "appendByItems acc [] = acc"
| "appendByItems acc (item # items) =
     appendByItems (acc @ [\<lparr>Expr = Col item, Desc = SortItem.Desc item\<rparr>]) items"

fun OnEnforce ::
  "Enforcer \<Rightarrow> 'col PhysicalProperty \<Rightarrow> ('col, 'ctx) Implementation \<Rightarrow> ('col, 'ctx) Implementation" where
  "OnEnforce (OrderEnforcer a) reqProp child =
     (let childPlan = GetPlan child;
          sort0 = PhysicalSort_Init [] (plan_SCtx childPlan) (plan_StatsInfo childPlan)
                   (plan_QueryBlockOffset childPlan)
                   (Some \<lparr>SortItems = [], ExpectedCnt = MaxFloat64\<rparr>);
          sort1 = set_ByItems sort0 (appendByItems [] (SortItems reqProp))
      in AttachChildren (NewSortImpl sort1) [child])"

text \<open>\<^verbatim>\<open>PhysicalSort.GetCost\<close> is missing from the sources and the spec gives no
  formula for it. It is the parameter \<open>GetCost\<close>: a function of the sort operator, the
  row count and the schema.\<close>

fun GetEnforceCost ::
  "(('col, 'ctx) PhysicalPlan \<Rightarrow> float64 \<Rightarrow> 'col list \<Rightarrow> float64)
   \<Rightarrow> Enforcer \<Rightarrow> ('col, 'ctx) Group \<Rightarrow> error + float64" where
  "GetEnforceCost GetCost (OrderEnforcer a) g =
     (case Front (Equivalents g) of
        None \<Rightarrow> Inl NilPointerDereference
      | Some e \<Rightarrow>
          (let sctx = LogicalPlan_SCtx (ExprNode e);
               sort0 = PhysicalSort_Init [] sctx (Stats (Prop g)) 0 None;
               cost = GetCost sort0 (RowCount (Stats (Prop g))) (Schema (Prop g))
           in Inr cost))"

subsection \<open>Example inputs\<close>

text \<open>A group of the TiDB engine with one group expression, 1000 estimated rows and two
  output columns; the same group on another engine; a group without group expressions.\<close>

definition tidb_group :: "(nat, nat) Group" where
  "tidb_group =
     \<lparr>EngineType = EngineTiDB,
      Equivalents = [\<lparr>ExprNode = \<lparr>LogicalPlan_SCtx = 7\<rparr>\<rparr>],
      Prop = \<lparr>Stats = \<lparr>RowCount = 1000\<rparr>, Schema = [1, 2]\<rparr>\<rparr>"

definition other_group :: "(nat, nat) Group" where
  "other_group = tidb_group\<lparr>EngineType := EngineOther 0\<rparr>"

definition empty_group :: "(nat, nat) Group" where
  "empty_group = tidb_group\<lparr>Equivalents := []\<rparr>"

text \<open>The required order (column 3 descending, column 5 ascending) with an expected count
  of 10 rows, and the empty order with the same count.\<close>

definition order_prop :: "nat PhysicalProperty" where
  "order_prop =
     \<lparr>SortItems = [\<lparr>Col = 3, Desc = True\<rparr>, \<lparr>Col = 5, Desc = False\<rparr>], ExpectedCnt = 10\<rparr>"

definition no_order_prop :: "nat PhysicalProperty" where
  "no_order_prop = \<lparr>SortItems = [], ExpectedCnt = 10\<rparr>"

text \<open>A child implementation: a scan-like operator without children.\<close>

definition scan_impl :: "(nat, nat) Implementation" where
  "scan_impl = Implementation (PhysicalOther 7 \<lparr>RowCount = 1000\<rparr> 1) []"

text \<open>A cost function to run \<open>GetEnforceCost\<close> with: rows times columns.\<close>

definition rows_times_width :: "(nat, nat) PhysicalPlan \<Rightarrow> float64 \<Rightarrow> nat list \<Rightarrow> float64" where
  "rows_times_width p count schema = count * real (length schema)"

section \<open>Properties\<close>

subsection \<open>Closed forms of the operations\<close>

lemma GetEnforcerRules_eq:
  "GetEnforcerRules g prop =
     (if EngineType g = EngineTiDB \<and> SortItems prop \<noteq> [] then [orderEnforcer] else [])"
  by (simp add: GetEnforcerRules_def IsSortItemEmpty_def)

lemma NewProperty_eq: "NewProperty e p = \<lparr>SortItems = [], ExpectedCnt = MaxFloat64\<rparr>"
  by (cases e) simp

text \<open>The loop appends one sort key per sort item, in order, behind what it started with.\<close>

lemma appendByItems_map:
  "appendByItems acc items =
     acc @ map (\<lambda>item. \<lparr>Expr = Col item, Desc = SortItem.Desc item\<rparr>) items"
  by (induction items arbitrary: acc) simp_all

lemma OnEnforce_eq:
  "OnEnforce e reqProp child =
     Implementation
       (PhysicalSort
          (map (\<lambda>item. \<lparr>Expr = Col item, Desc = SortItem.Desc item\<rparr>) (SortItems reqProp))
          (plan_SCtx (GetPlan child)) (plan_StatsInfo (GetPlan child))
          (plan_QueryBlockOffset (GetPlan child))
          (Some \<lparr>SortItems = [], ExpectedCnt = MaxFloat64\<rparr>))
       [child]"
  by (cases e)
     (simp add: Let_def PhysicalSort_Init_def NewSortImpl_def AttachChildren_def appendByItems_map)

lemma GetEnforceCost_eq:
  "GetEnforceCost GetCost e g =
     (case Equivalents g of
        [] \<Rightarrow> Inl NilPointerDereference
      | ge # ges \<Rightarrow>
          Inr (GetCost (PhysicalSort [] (LogicalPlan_SCtx (ExprNode ge)) (Stats (Prop g)) 0 None)
                 (RowCount (Stats (Prop g))) (Schema (Prop g))))"
  by (cases e) (simp add: Front_def PhysicalSort_Init_def split: list.split)

subsection \<open>Which enforcers are offered\<close>

text \<open>
  C1. \<open>GetEnforcerRules g prop\<close> is non-empty if and only if the engine of \<open>g\<close> is
  \<open>EngineTiDB\<close> and \<open>prop\<close> has a sort item. On any other engine the result is empty
  whatever \<open>prop\<close> is, and on \<open>EngineTiDB\<close> the order enforcer is among the result
  whenever \<open>prop\<close> has a sort item.
\<close>

theorem GetEnforcerRules_applicable:
  "((GetEnforcerRules g prop \<noteq> []) = (EngineType g = EngineTiDB \<and> SortItems prop \<noteq> [])) \<and>
   (EngineType g \<noteq> EngineTiDB \<longrightarrow> GetEnforcerRules g prop = []) \<and>
   (EngineType g = EngineTiDB \<and> SortItems prop \<noteq> [] \<longrightarrow>
      orderEnforcer \<in> set (GetEnforcerRules g prop))"
proof (cases "EngineType g = EngineTiDB")
  case False
  then have "GetEnforcerRules g prop = []"
    by (simp add: GetEnforcerRules_eq)
  with False show ?thesis by simp
next
  case True
  show ?thesis
  proof (cases "SortItems prop")
    case Nil
    with True have "GetEnforcerRules g prop = []"
      by (simp add: GetEnforcerRules_eq)
    with True Nil show ?thesis by simp
  next
    case (Cons item items)
    with True have "GetEnforcerRules g prop = [orderEnforcer]"
      by (simp add: GetEnforcerRules_eq)
    with True Cons show ?thesis by simp
  qed
qed

theorem GetEnforcerRules_applicable_witness:
  "EngineType other_group \<noteq> EngineTiDB \<and> GetEnforcerRules other_group order_prop = [] \<and>
   EngineType tidb_group = EngineTiDB \<and> SortItems order_prop \<noteq> [] \<and>
   orderEnforcer \<in> set (GetEnforcerRules tidb_group order_prop) \<and>
   GetEnforcerRules tidb_group no_order_prop = []"
  using GetEnforcerRules_applicable [of other_group order_prop]
    GetEnforcerRules_applicable [of tidb_group order_prop]
    GetEnforcerRules_applicable [of tidb_group no_order_prop]
  by (simp add: other_group_def tidb_group_def order_prop_def no_order_prop_def)

text \<open>
  C10. \<open>GetEnforcerRules\<close> returns at most one enforcer, and every enforcer it returns is
  the value of the package variable \<open>orderEnforcer\<close>.
\<close>

theorem GetEnforcerRules_at_most_orderEnforcer:
  "length (GetEnforcerRules g prop) \<le> 1 \<and>
   (\<forall>e \<in> set (GetEnforcerRules g prop). e = orderEnforcer)"
  by (simp add: GetEnforcerRules_eq)

theorem GetEnforcerRules_at_most_orderEnforcer_witness:
  "OrderEnforcer 0 \<in> set (GetEnforcerRules tidb_group order_prop) \<and>
   length (GetEnforcerRules tidb_group order_prop) \<le> 1 \<and>
   OrderEnforcer 0 = orderEnforcer"
  using GetEnforcerRules_at_most_orderEnforcer [of tidb_group order_prop]
  by (simp add: GetEnforcerRules_def IsSortItemEmpty_def tidb_group_def order_prop_def
      orderEnforcer_def)

subsection \<open>The relaxed property\<close>

text \<open>
  C5. \<open>NewProperty\<close> returns the empty property for every input: no sort items, and the
  expected count \<open>MaxFloat64\<close>.
\<close>

theorem NewProperty_empty:
  "NewProperty e p = \<lparr>SortItems = [], ExpectedCnt = MaxFloat64\<rparr> \<and>
   IsSortItemEmpty (NewProperty e p) \<and>
   SortItems (NewProperty e p) = [] \<and>
   ExpectedCnt (NewProperty e p) = MaxFloat64"
  by (simp add: NewProperty_eq IsSortItemEmpty_def)

text \<open>
  C7. \<open>NewProperty\<close> is a constant function, hence idempotent, and the set of properties
  it can produce has exactly one element.
\<close>

theorem NewProperty_constant:
  "NewProperty e p = NewProperty e' q \<and>
   NewProperty e (NewProperty e p) = NewProperty e p \<and>
   range (\<lambda>(e, p). NewProperty e p) = {\<lparr>SortItems = [], ExpectedCnt = MaxFloat64\<rparr>}"
  by (auto simp add: NewProperty_eq)

subsection \<open>The sort operator that enforces the order\<close>

text \<open>
  C3. The implementation that \<open>OnEnforce\<close> returns has the given child as its only
  child. Its plan is a sort whose sort keys are the sort items of the required property,
  one key per item and in the same order: the expression of the i-th key is the column of
  the i-th item, and its direction is the direction of the i-th item.
\<close>

theorem OnEnforce_copies_sort_items:
  "Children (OnEnforce e reqProp child) = [child] \<and>
   (\<exists>keys. SortByItems (GetPlan (OnEnforce e reqProp child)) = Some keys \<and>
      keys = map (\<lambda>item. \<lparr>Expr = Col item, Desc = SortItem.Desc item\<rparr>) (SortItems reqProp) \<and>
      length keys = length (SortItems reqProp) \<and>
      (\<forall>i < length (SortItems reqProp).
         Expr (keys ! i) = Col (SortItems reqProp ! i) \<and>
         ByItems.Desc (keys ! i) = SortItem.Desc (SortItems reqProp ! i)))"
proof -
  let ?key = "\<lambda>item. \<lparr>Expr = Col item, Desc = SortItem.Desc item\<rparr>"
  let ?keys = "map ?key (SortItems reqProp)"
  have child: "Children (OnEnforce e reqProp child) = [child]"
    by (simp add: OnEnforce_eq)
  have keys: "SortByItems (GetPlan (OnEnforce e reqProp child)) = Some ?keys"
    by (simp add: OnEnforce_eq)
  have len: "length ?keys = length (SortItems reqProp)"
    by simp
  have nth: "Expr (?keys ! i) = Col (SortItems reqProp ! i) \<and>
             ByItems.Desc (?keys ! i) = SortItem.Desc (SortItems reqProp ! i)"
    if "i < length (SortItems reqProp)" for i
    using that by simp
  from child keys len nth show ?thesis by blast
qed

theorem OnEnforce_copies_sort_items_witness:
  "(1::nat) < length (SortItems order_prop) \<and>
   Children (OnEnforce orderEnforcer order_prop scan_impl) = [scan_impl] \<and>
   SortByItems (GetPlan (OnEnforce orderEnforcer order_prop scan_impl)) =
     Some [\<lparr>Expr = 3, Desc = True\<rparr>, \<lparr>Expr = 5, Desc = False\<rparr>]"
  using OnEnforce_copies_sort_items [of orderEnforcer order_prop scan_impl]
  by (simp add: order_prop_def)

text \<open>
  C4, as the spec has it: the sort operator that \<open>OnEnforce\<close> builds declares the
  whole required property \<open>reqProp\<close> as its output property. This fails on the expected
  count. The required order on columns 3 and 5 with an expected count of 10 and the same
  order with an expected count of 20 are two properties, and \<open>OnEnforce\<close> returns the
  very same implementation for both: whatever is read off the result as its declared
  property, it cannot be the required property in both cases.
\<close>

theorem OnEnforce_property_counterexample:
  "order_prop\<lparr>ExpectedCnt := 20\<rparr> \<noteq> order_prop \<and>
   OnEnforce orderEnforcer (order_prop\<lparr>ExpectedCnt := 20\<rparr>) scan_impl =
     OnEnforce orderEnforcer order_prop scan_impl \<and>
   \<not> (\<exists>declared :: (nat, nat) Implementation \<Rightarrow> nat PhysicalProperty.
        declared (OnEnforce orderEnforcer order_prop scan_impl) = order_prop \<and>
        declared (OnEnforce orderEnforcer (order_prop\<lparr>ExpectedCnt := 20\<rparr>) scan_impl) =
          order_prop\<lparr>ExpectedCnt := 20\<rparr>)"
proof -
  have differ: "order_prop\<lparr>ExpectedCnt := 20\<rparr> \<noteq> order_prop"
    by (simp add: order_prop_def)
  have same: "OnEnforce orderEnforcer (order_prop\<lparr>ExpectedCnt := 20\<rparr>) scan_impl =
      OnEnforce orderEnforcer order_prop scan_impl"
    by (simp add: OnEnforce_eq)
  have "False"
    if "declared (OnEnforce orderEnforcer order_prop scan_impl) = order_prop"
    and "declared (OnEnforce orderEnforcer (order_prop\<lparr>ExpectedCnt := 20\<rparr>) scan_impl) =
          order_prop\<lparr>ExpectedCnt := 20\<rparr>"
    for declared :: "(nat, nat) Implementation \<Rightarrow> nat PhysicalProperty"
  proof -
    from that(2) have "declared (OnEnforce orderEnforcer order_prop scan_impl) =
        order_prop\<lparr>ExpectedCnt := 20\<rparr>"
      by (simp only: same)
    with that(1) have "order_prop\<lparr>ExpectedCnt := 20\<rparr> = order_prop"
      by simp
    with differ show False ..
  qed
  with differ same show ?thesis by blast
qed

text \<open>
  C4, amended: the sort operator that \<open>OnEnforce\<close> builds declares the sort items of the
  required property as its output order: its sort keys, read back as pairs of a column and
  a direction, are the sort items of \<open>reqProp\<close>, all of them and in the same order. The
  expected count of \<open>reqProp\<close> is not declared: required properties that differ in the
  expected count alone yield the same implementation.
\<close>

theorem OnEnforce_declares_sort_items:
  "(\<exists>keys. SortByItems (GetPlan (OnEnforce e reqProp child)) = Some keys \<and>
      map (\<lambda>key. \<lparr>Col = Expr key, Desc = ByItems.Desc key\<rparr>) keys = SortItems reqProp) \<and>
   OnEnforce e (reqProp\<lparr>ExpectedCnt := c\<rparr>) child = OnEnforce e reqProp child"
proof -
  have read_back: "map (\<lambda>key. \<lparr>Col = Expr key, Desc = ByItems.Desc key\<rparr>)
      (map (\<lambda>item. \<lparr>Expr = Col item, Desc = SortItem.Desc item\<rparr>) items) = items"
    for items :: "'a SortItem list"
    by (induction items) simp_all
  have "SortByItems (GetPlan (OnEnforce e reqProp child)) =
      Some (map (\<lambda>item. \<lparr>Expr = Col item, Desc = SortItem.Desc item\<rparr>) (SortItems reqProp))"
    by (simp add: OnEnforce_eq)
  moreover have "OnEnforce e (reqProp\<lparr>ExpectedCnt := c\<rparr>) child = OnEnforce e reqProp child"
    by (simp add: OnEnforce_eq)
  ultimately show ?thesis using read_back by simp
qed

subsection \<open>The cost of enforcing\<close>

text \<open>
  C9. \<open>GetEnforceCost\<close> reads the session context from the first group expression of the
  group. On a group without group expressions it panics with a nil pointer dereference;
  on a group with at least one it returns the cost of a sort operator that carries the
  session context of the first group expression and the statistics of the group, for the
  row count and the schema of the group.
\<close>

theorem GetEnforceCost_needs_group_expression:
  "(Equivalents g = [] \<longrightarrow> GetEnforceCost GetCost e g = Inl NilPointerDereference) \<and>
   (Equivalents g \<noteq> [] \<longrightarrow>
      GetEnforceCost GetCost e g =
        Inr (GetCost
               (PhysicalSort [] (LogicalPlan_SCtx (ExprNode (hd (Equivalents g))))
                  (Stats (Prop g)) 0 None)
               (RowCount (Stats (Prop g))) (Schema (Prop g))))"
proof (cases "Equivalents g")
  case Nil
  then show ?thesis by (simp add: GetEnforceCost_eq)
next
  case (Cons ge ges)
  then show ?thesis by (simp add: GetEnforceCost_eq)
qed

theorem GetEnforceCost_needs_group_expression_witness:
  "Equivalents empty_group = [] \<and>
   GetEnforceCost rows_times_width orderEnforcer empty_group = Inl NilPointerDereference \<and>
   Equivalents tidb_group \<noteq> [] \<and>
   GetEnforceCost rows_times_width orderEnforcer tidb_group = Inr 2000"
  using GetEnforceCost_needs_group_expression [of empty_group rows_times_width orderEnforcer]
    GetEnforceCost_needs_group_expression [of tidb_group rows_times_width orderEnforcer]
  by (simp add: empty_group_def tidb_group_def rows_times_width_def)

end
